theory Spec2Isabelle
  imports Complex_Main
begin

section \<open>Online DAG evaluation: the categorical similarity node\<close>

text \<open>
  Source: \<^verbatim>\<open>src/superlinked/framework/online/dag/online_categorical_similarity_node.py\<close>.
  The class \<^verbatim>\<open>OnlineCategoricalSimilarityNode\<close> overrides \<^verbatim>\<open>evaluate_self\<close> and adds
  \<^verbatim>\<open>evaluate_self_single\<close>; its base class \<^verbatim>\<open>OnlineNode\<close>, the static
  \<^verbatim>\<open>CategoricalSimilarityNode\<close>, the storage manager and the value classes live in
  other modules of the framework. What the two methods call there is either kept as data
  of the model (fields of records: the default-pass decision, the parent's evaluation, the
  components of the embedding and of the default vector), so that the theorems hold for
  whatever those modules supply, or modelled from the spec, and then said so.
\<close>

subsection \<open>Values\<close>

text \<open>
  A \<^verbatim>\<open>Vector\<close> is a fixed-length sequence of floating-point numbers. The node never
  computes with the components (it moves vectors from the store, the embedding or the
  configuration into results), so the components are reals and only the sequence
  structure matters.
\<close>

datatype Vector = Vector (vector_value: "real list")

definition dimension :: "Vector \<Rightarrow> nat" where
  "dimension v = length (vector_value v)"

text \<open>
  Modelled from the spec: \<^verbatim>\<open>ParsedSchema\<close> is one named-field record whose identity
  (schema name and object id) is derivable from it; \<^verbatim>\<open>ExecutionContext\<close> carries the
  default-pass flag and the scope identifiers.
\<close>

record ParsedSchema =
  schema_name :: string
  object_id :: string
  field_values :: "(string \<times> string) list"

record ExecutionContext =
  default_pass :: bool
  scope :: string

text \<open>
  \<^verbatim>\<open>EvaluationResult(main)\<close>: the source builds it from one \<^verbatim>\<open>main\<close> single result and
  reads \<^verbatim>\<open>input_.main.value\<close> from the parent's. The auxiliary slot stays empty for this
  single-output node kind.
\<close>

record 'a SingleEvaluationResult =
  result_node_id :: string
  val :: 'a

record 'a EvaluationResult =
  main :: "'a SingleEvaluationResult"
  chunks :: "'a SingleEvaluationResult list"

definition EvaluationResult :: "'a SingleEvaluationResult \<Rightarrow> 'a EvaluationResult" where
  "EvaluationResult m = \<lparr>main = m, chunks = []\<rparr>"

datatype error =
    ConfigurationError
  | MissingStoredResultError
  | TypeMismatchError
  | OtherError string

subsection \<open>The store and the observable effects\<close>

text \<open>
  The storage manager is a keyed store shared by all nodes. \<^verbatim>\<open>evaluate_self_single\<close> calls
  \<^verbatim>\<open>load_stored_result_or_raise_exception(parsed_schema)\<close> with the schema only, so a key
  is made of the node's identity and the schema's identity. The world an evaluation runs
  in is the store together with a log of the effects performed so far (an instrumented
  store): every load and every call into a parent appends one event.
\<close>

type_synonym storage_key = "string \<times> string \<times> string"

datatype event = StorageRead storage_key | ParentEvaluation ParsedSchema

record world =
  storage :: "storage_key \<rightharpoonup> Vector"
  trace :: "event list"

subsection \<open>Nodes\<close>

text \<open>
  Modelled from the spec: \<^verbatim>\<open>CategoricalSimilarityNode\<close> (static description, a class
  of the framework defined in another module), of which the source reads
  \<^verbatim>\<open>node.length\<close>, \<^verbatim>\<open>node.default_vector\<close> and \<^verbatim>\<open>node.embedding.embed(value, context)\<close>.
  A node has an identifier, a fixed output vector length and its per-kind configuration:
  the statically configured default Vector and the embedding. The spec fixes the
  dimensionality of both: the default Vector has dimensionality \<^verbatim>\<open>Node.length\<close>, and every
  Vector produced by a Node has that Node's exact declared length. So the configuration
  supplies the components, and the node's length supplies the dimension. The embedding is
  a function of the upstream value and the context; it may reject a value.
\<close>

record CategoricalSimilarityNode =
  node_id :: string
  length_node :: nat
  default_components :: "nat \<Rightarrow> real"
  embedding_components :: "string \<Rightarrow> ExecutionContext \<Rightarrow> error + (nat \<Rightarrow> real)"

definition default_vector :: "CategoricalSimilarityNode \<Rightarrow> Vector" where
  "default_vector n = Vector (map (default_components n) [0..<length_node n])"

definition embedding_embed ::
  "CategoricalSimilarityNode \<Rightarrow> string \<Rightarrow> ExecutionContext \<Rightarrow> error + Vector" where
  "embedding_embed n x ctx =
     (case embedding_components n x ctx of
        Inl e \<Rightarrow> Inl e
      | Inr f \<Rightarrow> Inr (Vector (map f [0..<length_node n])))"

text \<open>
  Modelled from the spec: \<^verbatim>\<open>evaluate_next_single\<close> of the parent, an
  \<^verbatim>\<open>OnlineNode[Node[str], str]\<close> of another kind (class outside these files). Evaluation
  is a synchronous computation with no mutable state of its own, reading at most the
  shared store, so the parent's method is a function of the schema, the context and the
  store contents; it returns a result carrying a string, or fails.
\<close>

record OnlineStrNode =
  evaluate_next_single ::
    "ParsedSchema \<Rightarrow> ExecutionContext \<Rightarrow> (storage_key \<rightharpoonup> Vector) \<Rightarrow> error + string EvaluationResult"

text \<open>
  The runtime node: the wrapped static node, the parent list, and the inherited
  \<^verbatim>\<open>_should_return_default_vector(parsed_schemas, context)\<close> of the base class, which
  decides the default pass from the batch and the context.
\<close>

record OnlineCategoricalSimilarityNode =
  node :: CategoricalSimilarityNode
  parents :: "OnlineStrNode list"
  should_return_default_vector :: "ParsedSchema list \<Rightarrow> ExecutionContext \<Rightarrow> bool"

text \<open>
  Modelled from the spec: \<^verbatim>\<open>ParentValidationType\<close> and the validation done by
  \<^verbatim>\<open>OnlineNode.__init__\<close> (the base class, defined in another module): the arity policy
  is checked against the length of the parent list when the runtime node is built; a
  violation is a \<^verbatim>\<open>ConfigurationError\<close> and no node is produced. Construction touches
  neither the store nor a parent.
\<close>

datatype ParentValidationType =
    NO_VALIDATION
  | LESS_THAN_TWO_PARENTS
  | EXACTLY_ONE_PARENT

fun validate_parents :: "ParentValidationType \<Rightarrow> nat \<Rightarrow> bool" where
  "validate_parents NO_VALIDATION n = True"
| "validate_parents LESS_THAN_TWO_PARENTS n = (n < 2)"
| "validate_parents EXACTLY_ONE_PARENT n = (n = 1)"

definition OnlineNode_init ::
  "(ParsedSchema list \<Rightarrow> ExecutionContext \<Rightarrow> bool) \<Rightarrow> CategoricalSimilarityNode \<Rightarrow>
   OnlineStrNode list \<Rightarrow> ParentValidationType \<Rightarrow> world \<Rightarrow>
   (error + OnlineCategoricalSimilarityNode) \<times> world" where
  "OnlineNode_init base n ps policy w =
     (if validate_parents policy (length ps)
      then (Inr \<lparr>node = n, parents = ps, should_return_default_vector = base\<rparr>, w)
      else (Inl ConfigurationError, w))"

text \<open>
  \<^verbatim>\<open>OnlineCategoricalSimilarityNode.__init__\<close>: passes its arguments to the base class
  with the policy \<^verbatim>\<open>LESS_THAN_TWO_PARENTS\<close>.
\<close>

definition OnlineCategoricalSimilarityNode_init ::
  "(ParsedSchema list \<Rightarrow> ExecutionContext \<Rightarrow> bool) \<Rightarrow> CategoricalSimilarityNode \<Rightarrow>
   OnlineStrNode list \<Rightarrow> world \<Rightarrow> (error + OnlineCategoricalSimilarityNode) \<times> world" where
  "OnlineCategoricalSimilarityNode_init base n ps w =
     OnlineNode_init base n ps LESS_THAN_TWO_PARENTS w"

text \<open>The \<^verbatim>\<open>length\<close> property: \<^verbatim>\<open>return self.node.length\<close>.\<close>

definition length_online :: "OnlineCategoricalSimilarityNode \<Rightarrow> nat" where
  "length_online self = length_node (node self)"

text \<open>
  Modelled from the spec: \<^verbatim>\<open>_get_single_evaluation_result\<close> (of the base class, defined
  in another module) wraps a value as this node's single result.
\<close>

definition get_single_evaluation_result ::
  "OnlineCategoricalSimilarityNode \<Rightarrow> 'a \<Rightarrow> 'a SingleEvaluationResult" where
  "get_single_evaluation_result self v = \<lparr>result_node_id = node_id (node self), val = v\<rparr>"

text \<open>
  Modelled from the spec: \<^verbatim>\<open>load_stored_result_or_raise_exception\<close> (of the base class,
  defined in another module) performs \<^verbatim>\<open>StorageManager.load(key(node, schema))\<close>; a
  present vector is returned, an absent one raises \<^verbatim>\<open>MissingStoredResultError\<close>. The
  read is logged either way.
\<close>

definition storage_key_of :: "OnlineCategoricalSimilarityNode \<Rightarrow> ParsedSchema \<Rightarrow> storage_key" where
  "storage_key_of self parsed_schema =
     (node_id (node self), schema_name parsed_schema, object_id parsed_schema)"

definition load_stored_result_or_raise_exception ::
  "OnlineCategoricalSimilarityNode \<Rightarrow> ParsedSchema \<Rightarrow> world \<Rightarrow> (error + Vector) \<times> world" where
  "load_stored_result_or_raise_exception self parsed_schema w =
     (let k = storage_key_of self parsed_schema;
          w' = w\<lparr>trace := trace w @ [StorageRead k]\<rparr>
      in case storage w k of
           None \<Rightarrow> (Inl MissingStoredResultError, w')
         | Some v \<Rightarrow> (Inr v, w'))"

subsection \<open>Evaluation\<close>

text \<open>
  \<^verbatim>\<open>evaluate_self_single\<close>: with no parent the stored result is loaded (or the load
  raises); otherwise the first parent is evaluated on the schema, its main value is
  embedded under the context, and the vector is wrapped. An exception raised by a callee
  leaves the method at once.
\<close>

definition evaluate_self_single ::
  "OnlineCategoricalSimilarityNode \<Rightarrow> ParsedSchema \<Rightarrow> ExecutionContext \<Rightarrow> world \<Rightarrow>
   (error + Vector EvaluationResult) \<times> world" where
  "evaluate_self_single self parsed_schema ctx w =
     (if length (parents self) = 0 then
        (case load_stored_result_or_raise_exception self parsed_schema w of
           (Inl e, w') \<Rightarrow> (Inl e, w')
         | (Inr stored_result, w') \<Rightarrow>
             (Inr (EvaluationResult (get_single_evaluation_result self stored_result)), w'))
      else
        (let w' = w\<lparr>trace := trace w @ [ParentEvaluation parsed_schema]\<rparr> in
         case evaluate_next_single (hd (parents self)) parsed_schema ctx (storage w) of
           Inl e \<Rightarrow> (Inl e, w')
         | Inr input \<Rightarrow>
             (case embedding_embed (node self) (val (main input)) ctx of
                Inl e \<Rightarrow> (Inl e, w')
              | Inr transformed_input_value \<Rightarrow>
                  (Inr (EvaluationResult
                          (get_single_evaluation_result self transformed_input_value)), w'))))"

text \<open>
  The list comprehension \<^verbatim>\<open>[self.evaluate_self_single(schema, context) for schema in
  parsed_schemas]\<close>: the schemas are evaluated from left to right, and the first exception
  ends the comprehension with no list.
\<close>

fun evaluate_each ::
  "OnlineCategoricalSimilarityNode \<Rightarrow> ParsedSchema list \<Rightarrow> ExecutionContext \<Rightarrow> world \<Rightarrow>
   (error + Vector EvaluationResult list) \<times> world" where
  "evaluate_each self [] ctx w = (Inr [], w)"
| "evaluate_each self (s # ss) ctx w =
     (case evaluate_self_single self s ctx w of
        (Inl e, w') \<Rightarrow> (Inl e, w')
      | (Inr r, w') \<Rightarrow>
          (case evaluate_each self ss ctx w' of
             (Inl e, w'') \<Rightarrow> (Inl e, w'')
           | (Inr rs, w'') \<Rightarrow> (Inr (r # rs), w'')))"

text \<open>The result every schema gets on a default pass.\<close>

definition default_result :: "OnlineCategoricalSimilarityNode \<Rightarrow> Vector EvaluationResult" where
  "default_result self =
     EvaluationResult (get_single_evaluation_result self (default_vector (node self)))"

text \<open>
  \<^verbatim>\<open>evaluate_self\<close>: one decision for the whole batch; on a default pass one default
  result per schema, otherwise the per-schema evaluation.
\<close>

definition evaluate_self ::
  "OnlineCategoricalSimilarityNode \<Rightarrow> ParsedSchema list \<Rightarrow> ExecutionContext \<Rightarrow> world \<Rightarrow>
   (error + Vector EvaluationResult list) \<times> world" where
  "evaluate_self self parsed_schemas ctx w =
     (if should_return_default_vector self parsed_schemas ctx
      then (Inr (map (\<lambda>_. default_result self) parsed_schemas), w)
      else evaluate_each self parsed_schemas ctx w)"

text \<open>
  Evaluating the records of a batch one at a time, each on its own from the same world:
  the list of per-record outcomes, and the outcome of the batch they determine (the first
  failure, or all the results in order).
\<close>

fun first_failure_or_all :: "(error + 'a) list \<Rightarrow> error + 'a list" where
  "first_failure_or_all [] = Inr []"
| "first_failure_or_all (Inl e # xs) = Inl e"
| "first_failure_or_all (Inr r # xs) =
     (case first_failure_or_all xs of Inl e \<Rightarrow> Inl e | Inr rs \<Rightarrow> Inr (r # rs))"




section \<open>The data loader\<close>

text \<open>
  Source: \<^verbatim>\<open>server/runner/executor/app/service/data_loader.py\<close>, class \<^verbatim>\<open>DataLoader\<close>.
  The pandas readers, \<^verbatim>\<open>uuid.uuid4\<close> and the asyncio task machinery are libraries; the
  model takes what they return from an environment and keeps a task as the record of what
  \<^verbatim>\<open>Task.get_name\<close>, \<^verbatim>\<open>done\<close>, \<^verbatim>\<open>cancelled\<close> and \<^verbatim>\<open>exception\<close> answer.
\<close>

subsection \<open>Sources, data and exceptions\<close>

text \<open>
  \<^verbatim>\<open>DataFormat\<close>: the six formats \<^verbatim>\<open>__read_data\<close> matches; any other value, which the
  \<^verbatim>\<open>case _\<close> branch takes, is given by the text \<^verbatim>\<open>repr\<close> prints for it.
\<close>

datatype DataFormat = CSV | FWF | XML | JSON | PARQUET | ORC | UNSUPPORTED string

record DataLoaderConfig =
  path :: string
  format :: DataFormat
  pandas_read_kwargs :: "(string \<times> string) list option"

text \<open>
  Modelled from the spec: \<^verbatim>\<open>DataLoaderSource\<close> (class of the framework) compares and hashes
  by its configuration (registration "dedups by exact configuration equality"), so a
  source is its configuration; its sink \<^verbatim>\<open>_source\<close> is looked up by the source.
\<close>

record DataLoaderSource =
  config :: DataLoaderConfig

type_synonym DataFrame = "string list list"

text \<open>
  Exceptions: \<^verbatim>\<open>TypeError(error_message)\<close> and \<^verbatim>\<open>ValueError(msg, data_format)\<close> as the
  source raises them (the second argument of the latter by its \<^verbatim>\<open>repr\<close>), and whatever
  a pandas reader, a chunked reader or a sink raises, by the text \<^verbatim>\<open>str\<close> gives for it.
\<close>

datatype exception =
    TypeError string
  | ValueError string string
  | ReadError string

text \<open>
  What a pandas read returns: a data frame, a chunked reader (\<^verbatim>\<open>TextFileReader\<close> or
  \<^verbatim>\<open>JsonReader\<close>), or an object of another type (its type name). A chunked reader is
  what its iteration does step by step: it yields a chunk or raises, and a raise ends it.
\<close>

datatype pandas_object =
    DataFrame DataFrame
  | Reader "(exception + DataFrame) list"
  | Unexpected string

text \<open>
  The text \<^verbatim>\<open>str\<close> gives for an exception, as the status message embeds it: for an
  exception of one argument the argument, for the two-argument \<^verbatim>\<open>ValueError\<close> the pair
  of the \<^verbatim>\<open>repr\<close> of both (the message is a literal without quotes or escapes, so its
  \<^verbatim>\<open>repr\<close> is the message in single quotes).
\<close>

fun str_exception :: "exception \<Rightarrow> string" where
  "str_exception (TypeError m) = m"
| "str_exception (ValueError m r) = ''('' @ [CHR 0x27] @ m @ [CHR 0x27] @ '', '' @ r @ '')''"
| "str_exception (ReadError m) = m"

text \<open>
  The environment: what the pandas reader of a format returns for a path and keyword
  arguments (or the exception it raises), the exception the sink of a source raises when
  a frame is put into it (if it raises; this is a matter of the source and the frame), and
  the identifier the \<open>n\<close>-th call of \<^verbatim>\<open>uuid.uuid4\<close> returns.
\<close>

record environment =
  pd_read :: "DataFormat \<Rightarrow> string \<Rightarrow> (string \<times> string) list \<Rightarrow> exception + pandas_object"
  sink_raises :: "DataLoaderSource \<Rightarrow> DataFrame \<Rightarrow> exception option"
  uuid4 :: "nat \<Rightarrow> string"

subsection \<open>Tasks\<close>

text \<open>
  An \<^verbatim>\<open>asyncio.Task\<close> wrapping \<^verbatim>\<open>asyncio.to_thread(self.__read_and_put_data, source)\<close>: it
  is pending until its call has ended, and then holds the exception the call raised, or
  that it returned, or that it was cancelled from outside.
\<close>

datatype task_outcome = Pending | Cancelled | Raised exception | Returned

record Task =
  task_name :: string
  task_source :: DataLoaderSource
  task_state :: task_outcome

definition get_name :: "Task \<Rightarrow> string" where
  "get_name t = task_name t"

definition done_task :: "Task \<Rightarrow> bool" where
  "done_task t = (task_state t \<noteq> Pending)"

definition cancelled :: "Task \<Rightarrow> bool" where
  "cancelled t = (task_state t = Cancelled)"

definition exception :: "Task \<Rightarrow> exception option" where
  "exception t = (case task_state t of Raised e \<Rightarrow> Some e | _ \<Rightarrow> None)"

text \<open>\<^verbatim>\<open>asyncio.create_task(..., name=...)\<close> schedules the call and returns at once.\<close>

definition create_task :: "DataLoaderSource \<Rightarrow> string \<Rightarrow> Task" where
  "create_task source name = \<lparr>task_name = name, task_source = source, task_state = Pending\<rparr>"

subsection \<open>The loader\<close>

text \<open>
  The two sets of the class are lists here: \<^verbatim>\<open>_data_loader_sources\<close> without
  duplicates, in the order of registration (the loop of \<^verbatim>\<open>load\<close> visits the set in some
  order; the list fixes one), and \<^verbatim>\<open>_data_loader_tasks\<close>, whose members are distinct
  objects, so that adding a task always adds one; a task is identified by its position.
\<close>

record DataLoader =
  data_loader_sources :: "DataLoaderSource list"
  app_config :: "(string \<times> string) list"
  data_loader_tasks :: "Task list"

text \<open>
  The running process: the loader, the number of identifiers drawn so far, and for every
  source the frames its sink has received.
\<close>

record process =
  data_loader :: DataLoader
  uuid_calls :: nat
  sinks :: "DataLoaderSource \<Rightarrow> DataFrame list"

definition DataLoader_init :: "(string \<times> string) list \<Rightarrow> DataLoader" where
  "DataLoader_init cfg = \<lparr>data_loader_sources = [], app_config = cfg, data_loader_tasks = []\<rparr>"

text \<open>
  \<^verbatim>\<open>register_data_loader_sources\<close>: a source already in the set is skipped (the warning
  is a log line), any other is added.
\<close>

fun register_data_loader_sources :: "DataLoader \<Rightarrow> DataLoaderSource list \<Rightarrow> DataLoader" where
  "register_data_loader_sources self [] = self"
| "register_data_loader_sources self (source # rest) =
     (if source \<in> set (data_loader_sources self)
      then register_data_loader_sources self rest
      else register_data_loader_sources
             (self\<lparr>data_loader_sources := data_loader_sources self @ [source]\<rparr>) rest)"

text \<open>
  \<^verbatim>\<open>load\<close>: for every registered source one task, named by a fresh \<^verbatim>\<open>uuid4\<close>, is
  created and added to the tasks, and its name to the returned set.
\<close>

fun load_loop ::
  "environment \<Rightarrow> DataLoaderSource list \<Rightarrow> Task list \<times> string set \<times> nat \<Rightarrow>
   Task list \<times> string set \<times> nat" where
  "load_loop env [] acc = acc"
| "load_loop env (source # rest) (tasks, task_ids, n) =
     (let task = create_task source (uuid4 env n)
      in load_loop env rest (tasks @ [task], insert (get_name task) task_ids, Suc n))"

definition load :: "environment \<Rightarrow> process \<Rightarrow> string set \<times> process" where
  "load env p =
     (case load_loop env (data_loader_sources (data_loader p))
             (data_loader_tasks (data_loader p), {}, uuid_calls p) of
        (tasks, task_ids, n) \<Rightarrow>
          (task_ids,
           p\<lparr>data_loader := (data_loader p)\<lparr>data_loader_tasks := tasks\<rparr>, uuid_calls := n\<rparr>))"

text \<open>
  \<^verbatim>\<open>get_task_status_by_name\<close>: the first task of that name, if any; then the checks of
  the source in their order.
\<close>

definition get_task_status_by_name :: "DataLoader \<Rightarrow> string \<Rightarrow> string option" where
  "get_task_status_by_name self task_id =
     (case find (\<lambda>task. get_name task = task_id) (data_loader_tasks self) of
        None \<Rightarrow> None
      | Some task \<Rightarrow>
          if \<not> done_task task then Some ''Task is still running''
          else if cancelled task then Some ''Task was cancelled''
          else (case exception task of
                  Some exc \<Rightarrow>
                    Some (''Task failed with exception: '' @ str_exception exc
                          @ ''. For traceback, check the logs.'')
                | None \<Rightarrow> Some ''Task completed successfully''))"

text \<open>\<^verbatim>\<open>__read_data\<close>: \<^verbatim>\<open>pandas_read_kwargs or {}\<close>, then the reader of the format.\<close>

definition read_data ::
  "environment \<Rightarrow> string \<Rightarrow> DataFormat \<Rightarrow> (string \<times> string) list option \<Rightarrow>
   exception + pandas_object" where
  "read_data env p data_format kwargs_opt =
     (let kwargs = (case kwargs_opt of None \<Rightarrow> [] | Some k \<Rightarrow> k) in
      case data_format of
        CSV \<Rightarrow> pd_read env CSV p kwargs
      | FWF \<Rightarrow> pd_read env FWF p kwargs
      | XML \<Rightarrow> pd_read env XML p kwargs
      | JSON \<Rightarrow> pd_read env JSON p kwargs
      | PARQUET \<Rightarrow> pd_read env PARQUET p kwargs
      | ORC \<Rightarrow> pd_read env ORC p kwargs
      | UNSUPPORTED r \<Rightarrow> Inl (ValueError ''Unsupported data format: %s'' r))"

text \<open>
  \<^verbatim>\<open>source._source.put(data)\<close>: the sink of the source raises, or receives one more
  frame.
\<close>

definition put ::
  "environment \<Rightarrow> DataLoaderSource \<Rightarrow> DataFrame \<Rightarrow> (DataLoaderSource \<Rightarrow> DataFrame list) \<Rightarrow>
   (exception + unit) \<times> (DataLoaderSource \<Rightarrow> DataFrame list)" where
  "put env source df s =
     (case sink_raises env source df of
        Some e \<Rightarrow> (Inl e, s)
      | None \<Rightarrow> (Inr (), s(source := s source @ [df])))"

text \<open>
  The loop \<^verbatim>\<open>for chunk in data: ... source._source.put(chunk)\<close>: the chunks are put in
  the order the reader yields them; a raise of the reader or of the sink ends the loop,
  the chunks put before it stay in the sink.
\<close>

fun put_chunks ::
  "environment \<Rightarrow> DataLoaderSource \<Rightarrow> (exception + DataFrame) list \<Rightarrow>
   (DataLoaderSource \<Rightarrow> DataFrame list) \<Rightarrow>
   (exception + unit) \<times> (DataLoaderSource \<Rightarrow> DataFrame list)" where
  "put_chunks env source [] s = (Inr (), s)"
| "put_chunks env source (Inl e # rest) s = (Inl e, s)"
| "put_chunks env source (Inr chunk # rest) s =
     (case put env source chunk s of
        (Inl e, s') \<Rightarrow> (Inl e, s')
      | (Inr u, s') \<Rightarrow> put_chunks env source rest s')"

text \<open>
  \<^verbatim>\<open>__read_and_put_data\<close>: a data frame is put whole, a reader chunk by chunk, and any
  other object raises \<^verbatim>\<open>TypeError\<close>; an exception of the read, of the reader or of the
  sink leaves the method.
\<close>

definition read_and_put_data ::
  "environment \<Rightarrow> DataLoaderSource \<Rightarrow> (DataLoaderSource \<Rightarrow> DataFrame list) \<Rightarrow>
   (exception + unit) \<times> (DataLoaderSource \<Rightarrow> DataFrame list)" where
  "read_and_put_data env source s =
     (case read_data env (path (config source)) (format (config source))
             (pandas_read_kwargs (config source)) of
        Inl e \<Rightarrow> (Inl e, s)
      | Inr (DataFrame df) \<Rightarrow> put env source df s
      | Inr (Reader readers) \<Rightarrow> put_chunks env source readers s
      | Inr (Unexpected ty) \<Rightarrow>
          (Inl (TypeError (''The returned object from the Pandas read method was not of the ''
                           @ ''expected type. Actual type: '' @ ty)), s))"

text \<open>
  The event loop runs the call of a pending task to its end: the exception it raises, or
  its return, is stored on that task. The task is the one at position \<open>i\<close>.
\<close>

definition run_task :: "environment \<Rightarrow> nat \<Rightarrow> process \<Rightarrow> process" where
  "run_task env i p =
     (let tasks = data_loader_tasks (data_loader p) in
      if i < length tasks \<and> task_state (tasks ! i) = Pending then
        (case read_and_put_data env (task_source (tasks ! i)) (sinks p) of
           (Inl e, s) \<Rightarrow>
             p\<lparr>data_loader := (data_loader p)
                   \<lparr>data_loader_tasks := tasks[i := (tasks ! i)\<lparr>task_state := Raised e\<rparr>]\<rparr>,
               sinks := s\<rparr>
         | (Inr u, s) \<Rightarrow>
             p\<lparr>data_loader := (data_loader p)
                   \<lparr>data_loader_tasks := tasks[i := (tasks ! i)\<lparr>task_state := Returned\<rparr>]\<rparr>,
               sinks := s\<rparr>)
      else p)"

section \<open>Concrete instances\<close>

text \<open>A colour embedding, a source node, a one-parent node, two contexts and two stores.\<close>

definition colour_embedding :: "string \<Rightarrow> ExecutionContext \<Rightarrow> error + (nat \<Rightarrow> real)" where
  "colour_embedding x ctx =
     (if x = ''blue'' then Inr (\<lambda>i. if i = 0 then 1 else 0)
      else if x = ''red'' then Inr (\<lambda>i. if i = 1 then 1 else 0)
      else Inl TypeMismatchError)"

definition colour_node :: CategoricalSimilarityNode where
  "colour_node = \<lparr>node_id = ''colour_similarity'', length_node = 2,
                   default_components = (\<lambda>i. 0), embedding_components = colour_embedding\<rparr>"

definition colour_field_node :: OnlineStrNode where
  "colour_field_node =
     \<lparr>evaluate_next_single = (\<lambda>s ctx store.
        case map_of (field_values s) ''colour'' of
          None \<Rightarrow> Inl (OtherError ''no colour'')
        | Some x \<Rightarrow> Inr (EvaluationResult \<lparr>result_node_id = ''colour_field'', val = x\<rparr>))\<rparr>"

definition by_context_flag :: "ParsedSchema list \<Rightarrow> ExecutionContext \<Rightarrow> bool" where
  "by_context_flag parsed_schemas ctx = default_pass ctx"

definition source_online_node :: OnlineCategoricalSimilarityNode where
  "source_online_node =
     \<lparr>node = colour_node, parents = [], should_return_default_vector = by_context_flag\<rparr>"

definition derived_online_node :: OnlineCategoricalSimilarityNode where
  "derived_online_node =
     \<lparr>node = colour_node, parents = [colour_field_node],
      should_return_default_vector = by_context_flag\<rparr>"

definition paint :: "string \<Rightarrow> string \<Rightarrow> ParsedSchema" where
  "paint i c = \<lparr>schema_name = ''paint'', object_id = i, field_values = [(''colour'', c)]\<rparr>"

definition normal_context :: ExecutionContext where
  "normal_context = \<lparr>default_pass = False, scope = ''v1''\<rparr>"

definition default_context :: ExecutionContext where
  "default_context = \<lparr>default_pass = True, scope = ''v1''\<rparr>"

definition empty_world :: world where
  "empty_world = \<lparr>storage = Map.empty, trace = []\<rparr>"

definition stocked_world :: world where
  "stocked_world =
     \<lparr>storage = [(''colour_similarity'', ''paint'', ''p1'') \<mapsto> Vector [1, 0]], trace = []\<rparr>"

lemmas example_defs =
  colour_embedding_def colour_node_def colour_field_node_def by_context_flag_def
  source_online_node_def derived_online_node_def paint_def normal_context_def
  default_context_def empty_world_def stocked_world_def
  default_vector_def embedding_embed_def numeral_2_eq_2


text \<open>
  A data loader environment: one readable CSV file of three rows, every other path
  unreadable, and identifiers that differ from call to call.
\<close>

definition csv_source :: "string \<Rightarrow> DataLoaderSource" where
  "csv_source p = \<lparr>config = \<lparr>path = p, format = CSV, pandas_read_kwargs = None\<rparr>\<rparr>"

definition numbered_uuid :: "nat \<Rightarrow> string" where
  "numbered_uuid n = replicate n CHR ''u''"

definition file_system ::
  "DataFormat \<Rightarrow> string \<Rightarrow> (string \<times> string) list \<Rightarrow> exception + pandas_object" where
  "file_system f p kwargs =
     (if p = ''rows.csv'' then Inr (DataFrame [[''1'', ''2''], [''3'', ''4''], [''5'', ''6'']])
      else Inl (ReadError ''No such file or directory''))"

definition test_environment :: environment where
  "test_environment =
     \<lparr>pd_read = file_system, sink_raises = (\<lambda>source df. None), uuid4 = numbered_uuid\<rparr>"

definition fresh_process :: "DataLoader \<Rightarrow> process" where
  "fresh_process dl = \<lparr>data_loader = dl, uuid_calls = 0, sinks = (\<lambda>_. [])\<rparr>"

text \<open>Two sources registered and loaded: one readable, one not.\<close>

definition two_tasks :: process where
  "two_tasks =
     snd (load test_environment
            (fresh_process
               (register_data_loader_sources (DataLoader_init [])
                  [csv_source ''rows.csv'', csv_source ''missing.csv''])))"

lemmas loader_example_defs =
  csv_source_def numbered_uuid_def file_system_def test_environment_def fresh_process_def

section \<open>Properties of the online node\<close>

subsection \<open>Facts about one evaluation and about the comprehension\<close>

lemma evaluate_self_single_storage:
  "storage (snd (evaluate_self_single self s ctx w)) = storage w"
  by (simp add: evaluate_self_single_def load_stored_result_or_raise_exception_def Let_def
      split: option.splits sum.splits)

lemma evaluate_self_single_result_storage_only:
  "storage w1 = storage w2 \<Longrightarrow>
   fst (evaluate_self_single self s ctx w1) = fst (evaluate_self_single self s ctx w2)"
  by (simp add: evaluate_self_single_def load_stored_result_or_raise_exception_def Let_def
      split: option.splits sum.splits)


lemma evaluate_each_storage:
  "storage (snd (evaluate_each self ss ctx w)) = storage w"
proof (induction ss arbitrary: w)
  case Nil
  show ?case by simp
next
  case (Cons s ss)
  have st: "storage (snd (evaluate_self_single self s ctx w)) = storage w"
    by (rule evaluate_self_single_storage)
  show ?case
  proof (cases "evaluate_self_single self s ctx w")
    case (Pair r w1)
    with st have w1: "storage w1 = storage w" by simp
    show ?thesis
    proof (cases r)
      case (Inl e)
      with Pair w1 show ?thesis by simp
    next
      case (Inr x)
      have "storage (snd (evaluate_each self ss ctx w1)) = storage w1"
        by (rule Cons.IH)
      with Pair Inr w1 show ?thesis
        by (cases "evaluate_each self ss ctx w1") (auto split: sum.splits)
    qed
  qed
qed

lemma evaluate_each_first_failure_or_all:
  "fst (evaluate_each self ss ctx w) =
   first_failure_or_all (map (\<lambda>s. fst (evaluate_self_single self s ctx w)) ss)"
proof (induction ss arbitrary: w)
  case Nil
  show ?case by simp
next
  case (Cons s ss)
  show ?case
  proof (cases "evaluate_self_single self s ctx w")
    case (Pair r w1)
    have w1: "storage w1 = storage w"
      using evaluate_self_single_storage [of self s ctx w] Pair by simp
    have same: "(\<lambda>s. fst (evaluate_self_single self s ctx w1)) =
                (\<lambda>s. fst (evaluate_self_single self s ctx w))"
      using evaluate_self_single_result_storage_only [OF w1] by auto
    show ?thesis
    proof (cases r)
      case (Inl e)
      with Pair show ?thesis by simp
    next
      case (Inr x)
      have "fst (evaluate_each self ss ctx w1) =
            first_failure_or_all (map (\<lambda>s. fst (evaluate_self_single self s ctx w1)) ss)"
        by (rule Cons.IH)
      with Pair Inr same show ?thesis
        by (cases "evaluate_each self ss ctx w1") (auto split: sum.splits)
    qed
  qed
qed

lemma first_failure_or_all_Inr_iff:
  "first_failure_or_all xs = Inr rs \<longleftrightarrow>
   length rs = length xs \<and> (\<forall>i < length xs. xs ! i = Inr (rs ! i))"
proof (induction xs arbitrary: rs rule: first_failure_or_all.induct)
  case 1
  show ?case by auto
next
  case (2 e xs)
  show ?case by auto
next
  case (3 r xs)
  show ?case
  proof (cases rs)
    case Nil
    then show ?thesis by (simp split: sum.splits)
  next
    case (Cons r' rs')
    have "first_failure_or_all xs = Inr rs' \<longleftrightarrow>
          length rs' = length xs \<and> (\<forall>i < length xs. xs ! i = Inr (rs' ! i))"
      by (rule "3.IH")
    with Cons show ?thesis
      by (auto simp: nth_Cons less_Suc_eq_0_disj split: sum.splits nat.splits)
  qed
qed


lemma evaluate_self_single_trace:
  "trace (snd (evaluate_self_single self s ctx w)) =
   trace w @ [if length (parents self) = 0 then StorageRead (storage_key_of self s)
              else ParentEvaluation s]"
  by (simp add: evaluate_self_single_def load_stored_result_or_raise_exception_def Let_def
      split: option.splits sum.splits)

lemma evaluate_each_trace:
  "evaluate_each self ss ctx w = (Inr rs, w') \<Longrightarrow>
   trace w' = trace w @ map (\<lambda>s. if length (parents self) = 0
                                   then StorageRead (storage_key_of self s)
                                   else ParentEvaluation s) ss"
proof (induction ss arbitrary: w rs)
  case Nil
  then show ?case by simp
next
  case (Cons s ss)
  obtain r w1 where one: "evaluate_self_single self s ctx w = (r, w1)"
    by (cases "evaluate_self_single self s ctx w")
  obtain q w2 where rest: "evaluate_each self ss ctx w1 = (q, w2)"
    by (cases "evaluate_each self ss ctx w1")
  from Cons.prems one rest obtain x xs where
    r: "r = Inr x" and q: "q = Inr xs" and w2: "w2 = w'"
    by (auto split: sum.splits)
  have t1: "trace w1 = trace w @ [if length (parents self) = 0
                                  then StorageRead (storage_key_of self s)
                                  else ParentEvaluation s]"
    using evaluate_self_single_trace [of self s ctx w] one by simp
  have "trace w' = trace w1 @ map (\<lambda>s. if length (parents self) = 0
                                   then StorageRead (storage_key_of self s)
                                   else ParentEvaluation s) ss"
    using Cons.IH [of w1 xs] rest q w2 by simp
  with t1 show ?case by simp
qed

subsection \<open>The batch and its order\<close>

text \<open>
  Claim C10. On the empty batch \<^verbatim>\<open>evaluate_self\<close> returns the empty list, whatever the
  context and whichever branch is taken, and leaves the world as it was: no load and no
  parent evaluation is logged.
\<close>

theorem evaluate_self_empty_batch:
  "evaluate_self self [] ctx w = (Inr [], w)"
  by (simp add: evaluate_self_def)

text \<open>
  Claim C1. \<^verbatim>\<open>evaluate_self\<close> returns the list \<open>rs\<close> exactly when \<open>rs\<close> is as long as the
  batch and, for every position \<open>i\<close>, \<open>rs ! i\<close> is the result computed for the \<open>i\<close>-th
  schema: the default result on a default pass, the result of \<^verbatim>\<open>evaluate_self_single\<close> on
  that schema otherwise. So a returned list has the length and the order of the batch, and
  the call returns whenever every schema has a result.
\<close>

theorem evaluate_self_same_length_and_order:
  "fst (evaluate_self self schemas ctx w) = Inr rs \<longleftrightarrow>
     length rs = length schemas \<and>
     (\<forall>i < length schemas.
        (if should_return_default_vector self schemas ctx then Inr (default_result self)
         else fst (evaluate_self_single self (schemas ! i) ctx w)) = Inr (rs ! i))"
proof (cases "should_return_default_vector self schemas ctx")
  case True
  have "map (\<lambda>_. default_result self) schemas = rs \<longleftrightarrow>
        length rs = length schemas \<and> (\<forall>i < length schemas. default_result self = rs ! i)"
    by (auto simp: list_eq_iff_nth_eq)
  with True show ?thesis by (simp add: evaluate_self_def)
next
  case False
  have "fst (evaluate_self self schemas ctx w) =
        first_failure_or_all (map (\<lambda>s. fst (evaluate_self_single self s ctx w)) schemas)"
    using False by (simp add: evaluate_self_def evaluate_each_first_failure_or_all)
  with False show ?thesis
    by (simp add: first_failure_or_all_Inr_iff)
qed

theorem evaluate_self_same_length_and_order_witness:
  "length [\<lparr>main = \<lparr>result_node_id = ''colour_similarity'', val = Vector [1, 0]\<rparr>, chunks = []\<rparr>,
           \<lparr>main = \<lparr>result_node_id = ''colour_similarity'', val = Vector [0, 1]\<rparr>, chunks = []\<rparr>]
     = length [paint ''p1'' ''blue'', paint ''p2'' ''red''] \<and>
   fst (evaluate_self derived_online_node [paint ''p1'' ''blue'', paint ''p2'' ''red'']
          normal_context empty_world) =
   Inr [\<lparr>main = \<lparr>result_node_id = ''colour_similarity'', val = Vector [1, 0]\<rparr>, chunks = []\<rparr>,
        \<lparr>main = \<lparr>result_node_id = ''colour_similarity'', val = Vector [0, 1]\<rparr>, chunks = []\<rparr>]"
  using evaluate_self_same_length_and_order
    [of derived_online_node "[paint ''p1'' ''blue'', paint ''p2'' ''red'']"
        normal_context empty_world
        "[\<lparr>main = \<lparr>result_node_id = ''colour_similarity'', val = Vector [1, 0]\<rparr>, chunks = []\<rparr>,
          \<lparr>main = \<lparr>result_node_id = ''colour_similarity'', val = Vector [0, 1]\<rparr>, chunks = []\<rparr>]"]
  by (simp add: evaluate_self_single_def get_single_evaluation_result_def EvaluationResult_def
      example_defs Let_def less_Suc_eq_0_disj nth_Cons')

subsection \<open>The default pass\<close>

text \<open>
  Claim C2. When the default pass is signalled for the batch and the context,
  \<^verbatim>\<open>evaluate_self\<close> returns one default result per schema, each holding the node's
  configured default vector, whose dimension is the length the node's \<^verbatim>\<open>length\<close> property
  gives; the world is returned unchanged (no load, no parent evaluation), and the same
  list comes out for any parent list and any world, so neither is consulted. The one
  decision covers the whole batch.
\<close>

theorem evaluate_self_default_pass:
  "should_return_default_vector self schemas ctx \<Longrightarrow>
   evaluate_self self schemas ctx w = (Inr (replicate (length schemas) (default_result self)), w)
   \<and> val (main (default_result self)) = default_vector (node self)
   \<and> dimension (val (main (default_result self))) = length_online self
   \<and> evaluate_self (self\<lparr>parents := ps\<rparr>) schemas ctx w' =
       (Inr (replicate (length schemas) (default_result self)), w')"
  by (simp add: evaluate_self_def default_result_def EvaluationResult_def
      get_single_evaluation_result_def map_replicate_const default_vector_def dimension_def
      length_online_def)

theorem evaluate_self_default_pass_witness:
  "should_return_default_vector source_online_node [paint ''p1'' ''blue'', paint ''p2'' ''red'']
     default_context
   \<and> evaluate_self source_online_node [paint ''p1'' ''blue'', paint ''p2'' ''red'']
        default_context empty_world =
      (Inr [\<lparr>main = \<lparr>result_node_id = ''colour_similarity'', val = Vector [0, 0]\<rparr>, chunks = []\<rparr>,
            \<lparr>main = \<lparr>result_node_id = ''colour_similarity'', val = Vector [0, 0]\<rparr>, chunks = []\<rparr>],
       empty_world)
   \<and> dimension (Vector [0, 0]) = length_online source_online_node
   \<and> trace empty_world = []"
  using evaluate_self_default_pass
    [where self = source_online_node
       and schemas = "[paint ''p1'' ''blue'', paint ''p2'' ''red'']"
       and ctx = default_context and w = empty_world and ps = "[]" and w' = empty_world]
  by (simp add: default_result_def get_single_evaluation_result_def EvaluationResult_def
      default_vector_def dimension_def length_online_def example_defs numeral_2_eq_2)

subsection \<open>Source nodes\<close>

text \<open>
  Claim C3. A node without parents loads the vector stored under the key of the node and
  the schema, logging the read: a stored vector is wrapped and returned, an absent one is
  the failure \<^verbatim>\<open>MissingStoredResultError\<close>. Evaluating again in the world the first
  evaluation left gives the same outcome. Outside a default pass the batch of that one
  schema has this outcome too.
\<close>

theorem source_node_loads_or_fails:
  "parents self = [] \<Longrightarrow>
   evaluate_self_single self s ctx w =
     (case storage w (storage_key_of self s) of
        None \<Rightarrow> Inl MissingStoredResultError
      | Some v \<Rightarrow> Inr (EvaluationResult (get_single_evaluation_result self v)),
      w\<lparr>trace := trace w @ [StorageRead (storage_key_of self s)]\<rparr>)
   \<and> fst (evaluate_self_single self s ctx (snd (evaluate_self_single self s ctx w))) =
     fst (evaluate_self_single self s ctx w)
   \<and> (\<not> should_return_default_vector self [s] ctx \<longrightarrow>
        fst (evaluate_self self [s] ctx w) =
          (case storage w (storage_key_of self s) of
             None \<Rightarrow> Inl MissingStoredResultError
           | Some v \<Rightarrow> Inr [EvaluationResult (get_single_evaluation_result self v)]))"
  by (simp add: evaluate_self_def evaluate_self_single_def
      load_stored_result_or_raise_exception_def Let_def split: option.splits)

theorem source_node_loads_or_fails_witness:
  "parents source_online_node = []
   \<and> \<not> should_return_default_vector source_online_node [paint ''p2'' ''red''] normal_context
   \<and> fst (evaluate_self_single source_online_node (paint ''p1'' ''blue'') normal_context
          stocked_world) =
      Inr \<lparr>main = \<lparr>result_node_id = ''colour_similarity'', val = Vector [1, 0]\<rparr>, chunks = []\<rparr>
   \<and> fst (evaluate_self_single source_online_node (paint ''p2'' ''red'') normal_context
          stocked_world) = Inl MissingStoredResultError
   \<and> fst (evaluate_self source_online_node [paint ''p2'' ''red''] normal_context
          stocked_world) = Inl MissingStoredResultError"
  using source_node_loads_or_fails
      [of source_online_node "paint ''p1'' ''blue''" normal_context stocked_world]
    source_node_loads_or_fails
      [of source_online_node "paint ''p2'' ''red''" normal_context stocked_world]
  by (simp add: storage_key_of_def get_single_evaluation_result_def EvaluationResult_def
      example_defs)

subsection \<open>One-parent nodes\<close>

text \<open>
  Claim C4. A node with exactly one parent evaluates the parent on the schema and the
  context, logs that evaluation, embeds the main value of the parent's result under the
  context and wraps the vector; a failure of the parent or of the embedding is the
  outcome. Two evaluations under the same context whose parent results carry the same
  main value have the same outcome. Outside a default pass the batch of that one schema
  has this outcome too.
\<close>

theorem one_parent_embeds_parent_value:
  "parents self = [p] \<Longrightarrow>
   evaluate_self_single self s ctx w =
     (case evaluate_next_single p s ctx (storage w) of
        Inl e \<Rightarrow> Inl e
      | Inr input \<Rightarrow>
          (case embedding_embed (node self) (val (main input)) ctx of
             Inl e \<Rightarrow> Inl e
           | Inr v \<Rightarrow> Inr (EvaluationResult (get_single_evaluation_result self v))),
      w\<lparr>trace := trace w @ [ParentEvaluation s]\<rparr>)
   \<and> (\<forall>s' w' i i'.
        evaluate_next_single p s ctx (storage w) = Inr i \<and>
        evaluate_next_single p s' ctx (storage w') = Inr i' \<and>
        val (main i) = val (main i') \<longrightarrow>
        fst (evaluate_self_single self s' ctx w') = fst (evaluate_self_single self s ctx w))
   \<and> (\<not> should_return_default_vector self [s] ctx \<longrightarrow>
        fst (evaluate_self self [s] ctx w) =
          (case evaluate_next_single p s ctx (storage w) of
             Inl e \<Rightarrow> Inl e
           | Inr input \<Rightarrow>
               (case embedding_embed (node self) (val (main input)) ctx of
                  Inl e \<Rightarrow> Inl e
                | Inr v \<Rightarrow> Inr [EvaluationResult (get_single_evaluation_result self v)])))"
  by (auto simp add: evaluate_self_def evaluate_self_single_def Let_def split: sum.splits)

theorem one_parent_embeds_parent_value_witness:
  "parents derived_online_node = [colour_field_node]
   \<and> \<not> should_return_default_vector derived_online_node [paint ''p1'' ''blue''] normal_context
   \<and> evaluate_self_single derived_online_node (paint ''p1'' ''blue'') normal_context empty_world =
      (Inr \<lparr>main = \<lparr>result_node_id = ''colour_similarity'', val = Vector [1, 0]\<rparr>, chunks = []\<rparr>,
       \<lparr>storage = Map.empty, trace = [ParentEvaluation (paint ''p1'' ''blue'')]\<rparr>)
   \<and> fst (evaluate_self_single derived_online_node (paint ''p7'' ''blue'') normal_context
          stocked_world) =
     fst (evaluate_self_single derived_online_node (paint ''p1'' ''blue'') normal_context
          empty_world)
   \<and> fst (evaluate_self derived_online_node [paint ''p1'' ''blue''] normal_context empty_world) =
      Inr [\<lparr>main = \<lparr>result_node_id = ''colour_similarity'', val = Vector [1, 0]\<rparr>, chunks = []\<rparr>]"
proof -
  have p: "parents derived_online_node = [colour_field_node]"
    by (simp add: derived_online_node_def)
  note t = one_parent_embeds_parent_value
    [OF p, of "paint ''p1'' ''blue''" normal_context empty_world]
  have a: "evaluate_next_single colour_field_node (paint ''p1'' ''blue'') normal_context
             (storage empty_world) =
           Inr \<lparr>main = \<lparr>result_node_id = ''colour_field'', val = ''blue''\<rparr>, chunks = []\<rparr>"
    by (simp add: example_defs EvaluationResult_def)
  have b: "evaluate_next_single colour_field_node (paint ''p7'' ''blue'') normal_context
             (storage stocked_world) =
           Inr \<lparr>main = \<lparr>result_node_id = ''colour_field'', val = ''blue''\<rparr>, chunks = []\<rparr>"
    by (simp add: example_defs EvaluationResult_def)
  have same: "fst (evaluate_self_single derived_online_node (paint ''p7'' ''blue'') normal_context
                stocked_world) =
              fst (evaluate_self_single derived_online_node (paint ''p1'' ''blue'')
                normal_context empty_world)"
    using t a b by simp
  have nd: "\<not> should_return_default_vector derived_online_node [paint ''p1'' ''blue'']
              normal_context"
    by (simp add: example_defs)
  have one: "evaluate_self_single derived_online_node (paint ''p1'' ''blue'') normal_context
               empty_world =
      (Inr \<lparr>main = \<lparr>result_node_id = ''colour_similarity'', val = Vector [1, 0]\<rparr>, chunks = []\<rparr>,
       \<lparr>storage = Map.empty, trace = [ParentEvaluation (paint ''p1'' ''blue'')]\<rparr>)"
    using t a
    by (simp add: get_single_evaluation_result_def EvaluationResult_def example_defs)
  have batch: "fst (evaluate_self derived_online_node [paint ''p1'' ''blue''] normal_context
                 empty_world) =
      Inr [\<lparr>main = \<lparr>result_node_id = ''colour_similarity'', val = Vector [1, 0]\<rparr>, chunks = []\<rparr>]"
    using t a nd
    by (simp add: get_single_evaluation_result_def EvaluationResult_def example_defs)
  from p nd one same batch show ?thesis by simp
qed

subsection \<open>Batched and per-record evaluation\<close>









subsection \<open>Construction\<close>

text \<open>
  Claim C6. Building the node with two or more parents fails with
  \<^verbatim>\<open>ConfigurationError\<close> and yields no node; with fewer than two parents it yields the node
  holding the given static node and parents. Either way the world is returned unchanged:
  construction loads nothing and evaluates no parent.
\<close>

theorem construction_validates_arity:
  "(2 \<le> length ps \<longrightarrow>
      OnlineCategoricalSimilarityNode_init base n ps w = (Inl ConfigurationError, w))
   \<and> (length ps < 2 \<longrightarrow>
        OnlineCategoricalSimilarityNode_init base n ps w =
          (Inr \<lparr>node = n, parents = ps, should_return_default_vector = base\<rparr>, w))
   \<and> snd (OnlineCategoricalSimilarityNode_init base n ps w) = w"
  by (simp add: OnlineCategoricalSimilarityNode_init_def OnlineNode_init_def)

theorem construction_validates_arity_witness:
  "2 \<le> length [colour_field_node, colour_field_node]
   \<and> OnlineCategoricalSimilarityNode_init by_context_flag colour_node
       [colour_field_node, colour_field_node] empty_world = (Inl ConfigurationError, empty_world)
   \<and> length [colour_field_node] < 2
   \<and> OnlineCategoricalSimilarityNode_init by_context_flag colour_node [colour_field_node]
       empty_world = (Inr derived_online_node, empty_world)"
  using construction_validates_arity
      [of "[colour_field_node, colour_field_node]" by_context_flag colour_node empty_world]
    construction_validates_arity
      [of "[colour_field_node]" by_context_flag colour_node empty_world]
  by (simp add: derived_online_node_def)

subsection \<open>Lengths of the produced vectors\<close>




section \<open>Properties of the data loader\<close>

subsection \<open>Registration and the loop of load\<close>

lemma register_sources_set:
  "set (data_loader_sources (register_data_loader_sources self xs)) =
   set (data_loader_sources self) \<union> set xs"
  by (induction self xs rule: register_data_loader_sources.induct) auto

lemma register_sources_distinct:
  "distinct (data_loader_sources self) \<Longrightarrow>
   distinct (data_loader_sources (register_data_loader_sources self xs))"
  by (induction self xs rule: register_data_loader_sources.induct) auto

lemma register_tasks:
  "data_loader_tasks (register_data_loader_sources self xs) = data_loader_tasks self"
  by (induction self xs rule: register_data_loader_sources.induct) auto

lemma register_known_source:
  "source \<in> set (data_loader_sources self) \<Longrightarrow>
   register_data_loader_sources self [source] = self"
  by simp

lemma load_loop_result:
  "load_loop env srcs (tasks, ids, n) =
     (tasks @ map (\<lambda>i. create_task (srcs ! i) (uuid4 env (n + i))) [0..<length srcs],
      ids \<union> (\<lambda>i. uuid4 env (n + i)) ` {..<length srcs},
      n + length srcs)"
proof (induction srcs arbitrary: tasks ids n)
  case Nil
  show ?case by simp
next
  case (Cons s srcs)
  have m: "map (\<lambda>i. create_task ((s # srcs) ! i) (uuid4 env (n + i))) [0..<length (s # srcs)] =
           create_task s (uuid4 env n) #
           map (\<lambda>i. create_task (srcs ! i) (uuid4 env (Suc n + i))) [0..<length srcs]"
    by (simp add: map_upt_Suc del: upt_Suc)
  have i: "(\<lambda>i. uuid4 env (n + i)) ` {..<length (s # srcs)} =
           insert (uuid4 env n) ((\<lambda>i. uuid4 env (Suc n + i)) ` {..<length srcs})"
    by (simp add: lessThan_Suc_eq_insert_0 image_image)
  show ?case
    unfolding load_loop.simps Let_def Cons.IH m i
    by (simp add: get_name_def create_task_def)
qed

lemma card_uuid_image:
  assumes "inj_on (uuid4 env) {n..<n + k}"
  shows "card ((\<lambda>i. uuid4 env (n + i)) ` {..<k}) = k"
proof -
  have "inj_on (\<lambda>i. uuid4 env (n + i)) {..<k}"
  proof (rule inj_onI)
    fix i j assume "i \<in> {..<k}" "j \<in> {..<k}" "uuid4 env (n + i) = uuid4 env (n + j)"
    then have "n + i \<in> {n..<n + k}" "n + j \<in> {n..<n + k}" by simp_all
    with assms \<open>uuid4 env (n + i) = uuid4 env (n + j)\<close> have "n + i = n + j"
      by (rule inj_onD [where f = "uuid4 env"])
    then show "i = j" by simp
  qed
  then have "card ((\<lambda>i. uuid4 env (n + i)) ` {..<k}) = card {..<k}"
    by (rule card_image)
  then show ?thesis by simp
qed

text \<open>
  Claim C8. Registering skips a source that is already registered: the same source
  registered twice leaves exactly one registered source, and after any two registrations
  the registered sources are the given ones without repetition. \<^verbatim>\<open>load\<close> creates one task
  per registered source, in their order, and returns their names; when the identifiers
  drawn for them are pairwise different there are as many names as registered sources.
\<close>

theorem registration_dedups_and_load_names_each_source:
  "data_loader_sources
     (register_data_loader_sources
        (register_data_loader_sources (DataLoader_init cfg) [s]) [s]) = [s]
   \<and> distinct (data_loader_sources
        (register_data_loader_sources
           (register_data_loader_sources (DataLoader_init cfg) xs) ys))
   \<and> set (data_loader_sources
        (register_data_loader_sources
           (register_data_loader_sources (DataLoader_init cfg) xs) ys)) = set xs \<union> set ys
   \<and> (s' \<in> set (data_loader_sources self) \<longrightarrow>
        register_data_loader_sources self [s'] = self)
   \<and> (inj_on (uuid4 env)
          {uuid_calls p ..< uuid_calls p + length (data_loader_sources (data_loader p))} \<longrightarrow>
        card (fst (load env p)) = length (data_loader_sources (data_loader p))
        \<and> fst (load env p) =
            (\<lambda>i. uuid4 env (uuid_calls p + i)) `
              {..<length (data_loader_sources (data_loader p))}
        \<and> data_loader_tasks (data_loader (snd (load env p))) =
            data_loader_tasks (data_loader p) @
            map (\<lambda>i. create_task (data_loader_sources (data_loader p) ! i)
                        (uuid4 env (uuid_calls p + i)))
              [0..<length (data_loader_sources (data_loader p))])"
proof -
  have a: "data_loader_sources
     (register_data_loader_sources
        (register_data_loader_sources (DataLoader_init cfg) [s]) [s]) = [s]"
    by (simp add: DataLoader_init_def)
  have d0: "distinct (data_loader_sources (DataLoader_init cfg))"
    by (simp add: DataLoader_init_def)
  have b: "distinct (data_loader_sources
        (register_data_loader_sources
           (register_data_loader_sources (DataLoader_init cfg) xs) ys))"
    by (intro register_sources_distinct d0)
  have c: "set (data_loader_sources
        (register_data_loader_sources
           (register_data_loader_sources (DataLoader_init cfg) xs) ys)) = set xs \<union> set ys"
    by (simp add: register_sources_set DataLoader_init_def)
  have d: "s' \<in> set (data_loader_sources self) \<longrightarrow>
        register_data_loader_sources self [s'] = self"
    by simp
  let ?srcs = "data_loader_sources (data_loader p)"
  have l: "load env p =
     ((\<lambda>i. uuid4 env (uuid_calls p + i)) ` {..<length ?srcs},
      p\<lparr>data_loader := (data_loader p)\<lparr>data_loader_tasks :=
           data_loader_tasks (data_loader p) @
           map (\<lambda>i. create_task (?srcs ! i) (uuid4 env (uuid_calls p + i)))
             [0..<length ?srcs]\<rparr>,
        uuid_calls := uuid_calls p + length ?srcs\<rparr>)"
    by (simp add: load_def load_loop_result)
  have e: "inj_on (uuid4 env) {uuid_calls p ..< uuid_calls p + length ?srcs} \<longrightarrow>
        card (fst (load env p)) = length ?srcs
        \<and> fst (load env p) = (\<lambda>i. uuid4 env (uuid_calls p + i)) ` {..<length ?srcs}
        \<and> data_loader_tasks (data_loader (snd (load env p))) =
            data_loader_tasks (data_loader p) @
            map (\<lambda>i. create_task (?srcs ! i) (uuid4 env (uuid_calls p + i)))
              [0..<length ?srcs]"
    by (simp add: l card_uuid_image)
  from a b c d e show ?thesis by blast
qed

theorem registration_dedups_and_load_names_each_source_witness:
  "data_loader_sources
     (register_data_loader_sources
        (register_data_loader_sources (DataLoader_init []) [csv_source ''rows.csv''])
        [csv_source ''rows.csv'']) = [csv_source ''rows.csv'']
   \<and> inj_on (uuid4 test_environment) {0 ..< 0 + 1}
   \<and> fst (load test_environment
          (fresh_process
             (register_data_loader_sources
                (register_data_loader_sources (DataLoader_init []) [csv_source ''rows.csv''])
                [csv_source ''rows.csv'']))) = {[]}
   \<and> card (fst (load test_environment
          (fresh_process
             (register_data_loader_sources
                (register_data_loader_sources (DataLoader_init []) [csv_source ''rows.csv''])
                [csv_source ''rows.csv''])))) = 1"
proof -
  define dl where "dl = register_data_loader_sources
                (register_data_loader_sources (DataLoader_init []) [csv_source ''rows.csv''])
                [csv_source ''rows.csv'']"
  note t = registration_dedups_and_load_names_each_source
    [where cfg = "[]" and s = "csv_source ''rows.csv''" and env = test_environment
       and p = "fresh_process dl"]
  have one: "data_loader_sources dl = [csv_source ''rows.csv'']"
    unfolding dl_def using t by blast
  have inj: "inj_on (uuid4 test_environment) {0 ..< 0 + 1}"
    by simp
  have c: "uuid_calls (fresh_process dl) = 0"
    by (simp add: fresh_process_def)
  have d: "length (data_loader_sources (data_loader (fresh_process dl))) = 1"
    by (simp add: fresh_process_def one)
  have "inj_on (uuid4 test_environment)
          {uuid_calls (fresh_process dl) ..<
           uuid_calls (fresh_process dl) +
           length (data_loader_sources (data_loader (fresh_process dl)))}"
    unfolding c d by (rule inj)
  with t have "card (fst (load test_environment (fresh_process dl))) =
          length (data_loader_sources (data_loader (fresh_process dl)))
        \<and> fst (load test_environment (fresh_process dl)) =
            (\<lambda>i. uuid4 test_environment (uuid_calls (fresh_process dl) + i)) `
              {..<length (data_loader_sources (data_loader (fresh_process dl)))}"
    by blast
  then have "card (fst (load test_environment (fresh_process dl))) = 1
      \<and> fst (load test_environment (fresh_process dl)) = {[]}"
    unfolding c d by (simp add: test_environment_def numbered_uuid_def lessThan_Suc)
  with one inj show ?thesis unfolding dl_def by (intro conjI) (elim conjE, assumption)+
qed

subsection \<open>Task status and the run of a task\<close>

lemma find_by_distinct_name:
  "distinct (map f xs) \<Longrightarrow> i < length xs \<Longrightarrow> find (\<lambda>x. f x = f (xs ! i)) xs = Some (xs ! i)"
proof (induction xs arbitrary: i)
  case Nil
  then show ?case by simp
next
  case (Cons x xs)
  show ?case
  proof (cases i)
    case 0
    then show ?thesis by simp
  next
    case (Suc j)
    with Cons.prems have j: "j < length xs" and d: "distinct (map f xs)"
      and nx: "f x \<notin> f ` set xs" by simp_all
    from j have "f (xs ! j) \<in> f ` set xs" by simp
    with nx have "f x \<noteq> f (xs ! j)" by metis
    with Suc Cons.IH [OF d j] show ?thesis by simp
  qed
qed

lemma status_None_iff:
  "get_task_status_by_name self task_id = None \<longleftrightarrow>
   task_id \<notin> get_name ` set (data_loader_tasks self)"
proof -
  have "find (\<lambda>task. get_name task = task_id) (data_loader_tasks self) = None \<longleftrightarrow>
        task_id \<notin> get_name ` set (data_loader_tasks self)"
    by (auto simp: find_None_iff)
  then show ?thesis
    by (auto simp: get_task_status_by_name_def split: option.splits)
qed

lemma status_of_task:
  "find (\<lambda>task. get_name task = task_id) (data_loader_tasks self) = Some t \<Longrightarrow>
   get_task_status_by_name self task_id =
     (case task_state t of
        Pending \<Rightarrow> Some ''Task is still running''
      | Cancelled \<Rightarrow> Some ''Task was cancelled''
      | Raised e \<Rightarrow> Some (''Task failed with exception: '' @ str_exception e
                           @ ''. For traceback, check the logs.'')
      | Returned \<Rightarrow> Some ''Task completed successfully'')"
  by (simp add: get_task_status_by_name_def done_task_def cancelled_def exception_def
      split: task_outcome.splits)

lemma status_five_cases:
  "get_task_status_by_name self task_id \<in>
     {None, Some ''Task is still running'', Some ''Task was cancelled'',
      Some ''Task completed successfully''} \<union>
     range (\<lambda>e. Some (''Task failed with exception: '' @ str_exception e
                       @ ''. For traceback, check the logs.''))"
proof (cases "find (\<lambda>task. get_name task = task_id) (data_loader_tasks self)")
  case None
  then show ?thesis by (simp add: get_task_status_by_name_def)
next
  case (Some t)
  show ?thesis
    unfolding status_of_task [OF Some]
    by (cases "task_state t") simp_all
qed

lemma put_outcome_sinks_free:
  "fst (put env source df s) = fst (put env source df s')"
  by (simp add: put_def split: option.splits)

lemma put_chunks_outcome_sinks_free:
  "fst (put_chunks env source cs s) = fst (put_chunks env source cs s')"
proof (induction cs arbitrary: s s')
  case Nil
  show ?case by simp
next
  case (Cons c cs)
  show ?case
  proof (cases c)
    case (Inl e)
    then show ?thesis by simp
  next
    case (Inr chunk)
    show ?thesis
    proof (cases "sink_raises env source chunk")
      case None
      with Inr Cons.IH show ?thesis by (simp add: put_def)
    next
      case (Some e)
      with Inr show ?thesis by (simp add: put_def)
    qed
  qed
qed

lemma read_and_put_data_outcome_sinks_free:
  "fst (read_and_put_data env source s) = fst (read_and_put_data env source s')"
proof (cases "read_data env (path (config source)) (format (config source))
                (pandas_read_kwargs (config source))")
  case (Inl e)
  then show ?thesis by (simp add: read_and_put_data_def)
next
  case (Inr data)
  then show ?thesis
    by (cases data)
       (simp_all add: read_and_put_data_def put_outcome_sinks_free [of env source _ s s']
          put_chunks_outcome_sinks_free [of env source _ s s'])
qed

lemma run_task_tasks:
  "data_loader_tasks (data_loader (run_task env i p)) =
     (let tasks = data_loader_tasks (data_loader p) in
      if i < length tasks \<and> task_state (tasks ! i) = Pending
      then tasks[i := (tasks ! i)\<lparr>task_state :=
             (case fst (read_and_put_data env (task_source (tasks ! i)) (sinks p)) of
                Inl e \<Rightarrow> Raised e | Inr u \<Rightarrow> Returned)\<rparr>]
      else tasks)"
  by (cases "read_and_put_data env
               (task_source (data_loader_tasks (data_loader p) ! i)) (sinks p)")
     (simp add: run_task_def Let_def split: sum.splits)

lemma run_task_length:
  "length (data_loader_tasks (data_loader (run_task env i p))) =
   length (data_loader_tasks (data_loader p))"
  by (simp add: run_task_tasks Let_def)

lemma run_task_other:
  "j \<noteq> i \<Longrightarrow>
   data_loader_tasks (data_loader (run_task env i p)) ! j = data_loader_tasks (data_loader p) ! j"
  by (simp add: run_task_tasks Let_def)

lemma run_task_names:
  "map get_name (data_loader_tasks (data_loader (run_task env i p))) =
   map get_name (data_loader_tasks (data_loader p))"
  by (simp add: run_task_tasks Let_def map_update get_name_def list_update_same_conv)

lemma run_task_isolated:
  assumes "j \<noteq> i"
  shows "data_loader_tasks (data_loader (run_task env j (run_task env i p))) ! j =
         data_loader_tasks (data_loader (run_task env j p)) ! j"
proof -
  let ?T = "data_loader_tasks (data_loader p)"
  let ?T1 = "data_loader_tasks (data_loader (run_task env i p))"
  have len: "length ?T1 = length ?T" by (rule run_task_length)
  have same: "?T1 ! j = ?T ! j" using assms by (rule run_task_other)
  have out: "fst (read_and_put_data env (task_source (?T ! j)) (sinks (run_task env i p))) =
             fst (read_and_put_data env (task_source (?T ! j)) (sinks p))"
    by (rule read_and_put_data_outcome_sinks_free)
  show ?thesis
    by (simp add: run_task_tasks [of env j] Let_def len same out)
qed

lemma load_tasks_pending:
  assumes "length (data_loader_tasks (data_loader p)) \<le> i"
      and "i < length (data_loader_tasks (data_loader (snd (load env p))))"
  shows "task_state (data_loader_tasks (data_loader (snd (load env p))) ! i) = Pending"
proof -
  let ?srcs = "data_loader_sources (data_loader p)"
  let ?T = "data_loader_tasks (data_loader p)"
  have t: "data_loader_tasks (data_loader (snd (load env p))) =
           ?T @ map (\<lambda>k. create_task (?srcs ! k) (uuid4 env (uuid_calls p + k)))
                  [0..<length ?srcs]"
    by (simp add: load_def load_loop_result)
  from assms have "i - length ?T < length ?srcs" by (simp add: t)
  with assms(1) show ?thesis
    by (simp add: t nth_append create_task_def)
qed

lemma load_leaves_sinks:
  "sinks (snd (load env p)) = sinks p"
  by (simp add: load_def load_loop_result)

lemma load_ignores_files:
  "load (env\<lparr>pd_read := r\<rparr>) p = load env p"
  by (simp add: load_def load_loop_result)

lemma status_at_position:
  assumes "distinct (map get_name (data_loader_tasks self))"
      and "k < length (data_loader_tasks self)"
  shows "get_task_status_by_name self (get_name (data_loader_tasks self ! k)) =
     (case task_state (data_loader_tasks self ! k) of
        Pending \<Rightarrow> Some ''Task is still running''
      | Cancelled \<Rightarrow> Some ''Task was cancelled''
      | Raised e \<Rightarrow> Some (''Task failed with exception: '' @ str_exception e
                           @ ''. For traceback, check the logs.'')
      | Returned \<Rightarrow> Some ''Task completed successfully'')"
  by (rule status_of_task) (rule find_by_distinct_name [OF assms])

lemma run_task_failed:
  assumes "i < length (data_loader_tasks (data_loader p))"
      and "task_state (data_loader_tasks (data_loader p) ! i) = Pending"
      and "fst (read_and_put_data env (task_source (data_loader_tasks (data_loader p) ! i))
                 (sinks p)) = Inl e"
  shows "data_loader_tasks (data_loader (run_task env i p)) =
         (data_loader_tasks (data_loader p))
           [i := (data_loader_tasks (data_loader p) ! i)\<lparr>task_state := Raised e\<rparr>]"
  using assms by (simp add: run_task_tasks Let_def)

lemma run_task_failed_status:
  assumes "i < length (data_loader_tasks (data_loader p))"
      and "task_state (data_loader_tasks (data_loader p) ! i) = Pending"
      and "fst (read_and_put_data env (task_source (data_loader_tasks (data_loader p) ! i))
                 (sinks p)) = Inl e"
      and "distinct (map get_name (data_loader_tasks (data_loader p)))"
  shows "get_task_status_by_name (data_loader (run_task env i p))
           (get_name (data_loader_tasks (data_loader p) ! i)) =
         Some (''Task failed with exception: '' @ str_exception e
               @ ''. For traceback, check the logs.'')"
proof -
  let ?T = "data_loader_tasks (data_loader p)"
  let ?T' = "data_loader_tasks (data_loader (run_task env i p))"
  have T': "?T' = ?T[i := (?T ! i)\<lparr>task_state := Raised e\<rparr>]"
    using assms(1-3) by (rule run_task_failed)
  have d: "distinct (map get_name ?T')"
    using assms(4) by (simp add: run_task_names)
  have l: "i < length ?T'" using assms(1) by (simp add: run_task_length)
  have n: "get_name (?T' ! i) = get_name (?T ! i)"
    using assms(1) by (simp add: T' get_name_def)
  have s: "task_state (?T' ! i) = Raised e"
    using assms(1) by (simp add: T')
  from status_at_position [OF d l] show ?thesis
    by (simp add: n s)
qed

lemma run_task_other_status:
  assumes "j < length (data_loader_tasks (data_loader p))"
      and "j \<noteq> i"
      and "distinct (map get_name (data_loader_tasks (data_loader p)))"
  shows "get_task_status_by_name (data_loader (run_task env i p))
           (get_name (data_loader_tasks (data_loader p) ! j)) =
         get_task_status_by_name (data_loader p)
           (get_name (data_loader_tasks (data_loader p) ! j))"
proof -
  let ?T = "data_loader_tasks (data_loader p)"
  let ?T' = "data_loader_tasks (data_loader (run_task env i p))"
  have d: "distinct (map get_name ?T')"
    using assms(3) by (simp add: run_task_names)
  have l: "j < length ?T'" using assms(1) by (simp add: run_task_length)
  have e: "?T' ! j = ?T ! j" using assms(2) by (rule run_task_other)
  from status_at_position [OF d l] status_at_position [OF assms(3) assms(1)]
  show ?thesis by (simp add: e)
qed

text \<open>
  Claim C9. The status query answers, for every identifier, exactly one of: nothing (no
  task has that name), running, cancelled, failed with the text of the exception, or
  completed; which one is fixed by the state of the task of that name: running for a
  pending task, cancelled for a cancelled one, failed for one whose call raised,
  completed for one whose call returned. The run of a pending task stores on it what its
  call did. \<^verbatim>\<open>load\<close> only creates tasks: it puts nothing into a sink, its result does not
  depend on what the files hold, and every task it adds is pending, so no failure of an
  ingestion reaches its caller. When the run of a pending task fails, the exception is
  stored on that task and the status query of its name reports it; the status of every
  other task is as before, and the outcome another task has when it runs is the same as
  if the failed task had not run.
\<close>

theorem task_failure_is_retained_and_isolated:
  "get_task_status_by_name self task_id \<in>
     {None, Some ''Task is still running'', Some ''Task was cancelled'',
      Some ''Task completed successfully''} \<union>
     range (\<lambda>e. Some (''Task failed with exception: '' @ str_exception e
                       @ ''. For traceback, check the logs.''))
   \<and> (get_task_status_by_name self task_id = None \<longleftrightarrow>
        task_id \<notin> get_name ` set (data_loader_tasks self))
   \<and> (find (\<lambda>task. get_name task = task_id) (data_loader_tasks self) = Some t \<longrightarrow>
        get_task_status_by_name self task_id =
          (case task_state t of
             Pending \<Rightarrow> Some ''Task is still running''
           | Cancelled \<Rightarrow> Some ''Task was cancelled''
           | Raised x \<Rightarrow> Some (''Task failed with exception: '' @ str_exception x
                                @ ''. For traceback, check the logs.'')
           | Returned \<Rightarrow> Some ''Task completed successfully''))
   \<and> (distinct (map get_name (data_loader_tasks self)) \<and>
        n < length (data_loader_tasks self) \<longrightarrow>
        get_task_status_by_name self (get_name (data_loader_tasks self ! n)) =
          (case task_state (data_loader_tasks self ! n) of
             Pending \<Rightarrow> Some ''Task is still running''
           | Cancelled \<Rightarrow> Some ''Task was cancelled''
           | Raised x \<Rightarrow> Some (''Task failed with exception: '' @ str_exception x
                                @ ''. For traceback, check the logs.'')
           | Returned \<Rightarrow> Some ''Task completed successfully''))
   \<and> sinks (snd (load env p)) = sinks p
   \<and> load (env\<lparr>pd_read := r\<rparr>) p = load env p
   \<and> (i < length (data_loader_tasks (data_loader p)) \<and>
        task_state (data_loader_tasks (data_loader p) ! i) = Pending \<longrightarrow>
        task_state (data_loader_tasks (data_loader (run_task env i p)) ! i) =
          (case fst (read_and_put_data env
                       (task_source (data_loader_tasks (data_loader p) ! i)) (sinks p)) of
             Inl x \<Rightarrow> Raised x
           | Inr u \<Rightarrow> Returned))
   \<and> (length (data_loader_tasks (data_loader p)) \<le> k \<and>
        k < length (data_loader_tasks (data_loader (snd (load env p)))) \<longrightarrow>
        task_state (data_loader_tasks (data_loader (snd (load env p))) ! k) = Pending)
   \<and> (i < length (data_loader_tasks (data_loader p)) \<and>
        task_state (data_loader_tasks (data_loader p) ! i) = Pending \<and>
        fst (read_and_put_data env (task_source (data_loader_tasks (data_loader p) ! i))
               (sinks p)) = Inl e \<longrightarrow>
          data_loader_tasks (data_loader (run_task env i p)) =
            (data_loader_tasks (data_loader p))
              [i := (data_loader_tasks (data_loader p) ! i)\<lparr>task_state := Raised e\<rparr>]
          \<and> (distinct (map get_name (data_loader_tasks (data_loader p))) \<longrightarrow>
               get_task_status_by_name (data_loader (run_task env i p))
                 (get_name (data_loader_tasks (data_loader p) ! i)) =
               Some (''Task failed with exception: '' @ str_exception e
                     @ ''. For traceback, check the logs.'')))
   \<and> (j < length (data_loader_tasks (data_loader p)) \<and> j \<noteq> i \<and>
        distinct (map get_name (data_loader_tasks (data_loader p))) \<longrightarrow>
          get_task_status_by_name (data_loader (run_task env i p))
            (get_name (data_loader_tasks (data_loader p) ! j)) =
          get_task_status_by_name (data_loader p)
            (get_name (data_loader_tasks (data_loader p) ! j)))
   \<and> (j \<noteq> i \<longrightarrow>
        data_loader_tasks (data_loader (run_task env j (run_task env i p))) ! j =
        data_loader_tasks (data_loader (run_task env j p)) ! j)"
proof (intro conjI impI)
  show "get_task_status_by_name self task_id \<in>
     {None, Some ''Task is still running'', Some ''Task was cancelled'',
      Some ''Task completed successfully''} \<union>
     range (\<lambda>e. Some (''Task failed with exception: '' @ str_exception e
                       @ ''. For traceback, check the logs.''))"
    by (rule status_five_cases)
  show "get_task_status_by_name self task_id = None \<longleftrightarrow>
        task_id \<notin> get_name ` set (data_loader_tasks self)"
    by (rule status_None_iff)
  show "sinks (snd (load env p)) = sinks p" by (rule load_leaves_sinks)
  show "load (env\<lparr>pd_read := r\<rparr>) p = load env p" by (rule load_ignores_files)
next
  assume "find (\<lambda>task. get_name task = task_id) (data_loader_tasks self) = Some t"
  then show "get_task_status_by_name self task_id =
          (case task_state t of
             Pending \<Rightarrow> Some ''Task is still running''
           | Cancelled \<Rightarrow> Some ''Task was cancelled''
           | Raised x \<Rightarrow> Some (''Task failed with exception: '' @ str_exception x
                                @ ''. For traceback, check the logs.'')
           | Returned \<Rightarrow> Some ''Task completed successfully'')"
    by (rule status_of_task)
next
  assume "distinct (map get_name (data_loader_tasks self)) \<and>
        n < length (data_loader_tasks self)"
  then show "get_task_status_by_name self (get_name (data_loader_tasks self ! n)) =
          (case task_state (data_loader_tasks self ! n) of
             Pending \<Rightarrow> Some ''Task is still running''
           | Cancelled \<Rightarrow> Some ''Task was cancelled''
           | Raised x \<Rightarrow> Some (''Task failed with exception: '' @ str_exception x
                                @ ''. For traceback, check the logs.'')
           | Returned \<Rightarrow> Some ''Task completed successfully'')"
    by (simp add: status_at_position)
next
  assume "i < length (data_loader_tasks (data_loader p)) \<and>
        task_state (data_loader_tasks (data_loader p) ! i) = Pending"
  then show "task_state (data_loader_tasks (data_loader (run_task env i p)) ! i) =
          (case fst (read_and_put_data env
                       (task_source (data_loader_tasks (data_loader p) ! i)) (sinks p)) of
             Inl x \<Rightarrow> Raised x
           | Inr u \<Rightarrow> Returned)"
    by (simp add: run_task_tasks Let_def)
next
  assume "length (data_loader_tasks (data_loader p)) \<le> k \<and>
        k < length (data_loader_tasks (data_loader (snd (load env p))))"
  then show "task_state (data_loader_tasks (data_loader (snd (load env p))) ! k) = Pending"
    by (simp add: load_tasks_pending)
next
  assume a: "i < length (data_loader_tasks (data_loader p)) \<and>
        task_state (data_loader_tasks (data_loader p) ! i) = Pending \<and>
        fst (read_and_put_data env (task_source (data_loader_tasks (data_loader p) ! i))
               (sinks p)) = Inl e"
  then show "data_loader_tasks (data_loader (run_task env i p)) =
            (data_loader_tasks (data_loader p))
              [i := (data_loader_tasks (data_loader p) ! i)\<lparr>task_state := Raised e\<rparr>]"
    by (simp add: run_task_failed)
  assume "distinct (map get_name (data_loader_tasks (data_loader p)))"
  with a show "get_task_status_by_name (data_loader (run_task env i p))
                 (get_name (data_loader_tasks (data_loader p) ! i)) =
               Some (''Task failed with exception: '' @ str_exception e
                     @ ''. For traceback, check the logs.'')"
    by (simp add: run_task_failed_status)
next
  assume "j < length (data_loader_tasks (data_loader p)) \<and> j \<noteq> i \<and>
        distinct (map get_name (data_loader_tasks (data_loader p)))"
  then show "get_task_status_by_name (data_loader (run_task env i p))
            (get_name (data_loader_tasks (data_loader p) ! j)) =
          get_task_status_by_name (data_loader p)
            (get_name (data_loader_tasks (data_loader p) ! j))"
    by (simp add: run_task_other_status)
next
  assume "j \<noteq> i"
  then show "data_loader_tasks (data_loader (run_task env j (run_task env i p))) ! j =
        data_loader_tasks (data_loader (run_task env j p)) ! j"
    by (rule run_task_isolated)
qed

theorem task_failure_is_retained_and_isolated_witness:
  "data_loader_tasks (data_loader two_tasks) =
     [create_task (csv_source ''rows.csv'') [], create_task (csv_source ''missing.csv'') ''u'']
   \<and> fst (read_and_put_data test_environment (csv_source ''missing.csv'') (sinks two_tasks)) =
       Inl (ReadError ''No such file or directory'')
   \<and> get_task_status_by_name (data_loader (run_task test_environment 1 two_tasks)) ''u'' =
       Some ''Task failed with exception: No such file or directory. For traceback, check the logs.''
   \<and> get_task_status_by_name (data_loader (run_task test_environment 1 two_tasks)) [] =
       Some ''Task is still running''
   \<and> task_state (data_loader_tasks (data_loader
         (run_task test_environment 0 (run_task test_environment 1 two_tasks))) ! 0) = Returned
   \<and> get_task_status_by_name
         (data_loader (run_task test_environment 0 (run_task test_environment 1 two_tasks))) [] =
       Some ''Task completed successfully''
   \<and> get_task_status_by_name
         (data_loader (run_task test_environment 0 (run_task test_environment 1 two_tasks)))
         ''u'' =
       Some ''Task failed with exception: No such file or directory. For traceback, check the logs.''
   \<and> get_task_status_by_name
         (data_loader (run_task test_environment 0 (run_task test_environment 1 two_tasks)))
         ''v'' = None"
proof -
  let ?T = "[create_task (csv_source ''rows.csv'') [],
             create_task (csv_source ''missing.csv'') ''u'']"
  define dl where "dl = register_data_loader_sources (DataLoader_init [])
               [csv_source ''rows.csv'', csv_source ''missing.csv'']"
  have reg: "data_loader_sources dl = [csv_source ''rows.csv'', csv_source ''missing.csv'']"
    unfolding dl_def by (simp add: DataLoader_init_def csv_source_def)
  have regt: "data_loader_tasks dl = []"
    unfolding dl_def by (simp add: register_tasks DataLoader_init_def)
  have two: "two_tasks = snd (load test_environment (fresh_process dl))"
    by (simp only: two_tasks_def dl_def)
  have T: "data_loader_tasks (data_loader two_tasks) = ?T"
    by (simp add: two load_def load_loop_result fresh_process_def reg regt
        test_environment_def numbered_uuid_def)
  have fail: "fst (read_and_put_data test_environment (csv_source ''missing.csv'')
                (sinks two_tasks)) = Inl (ReadError ''No such file or directory'')"
    by (simp add: read_and_put_data_def read_data_def csv_source_def test_environment_def
        file_system_def)
  have ok: "fst (read_and_put_data test_environment (csv_source ''rows.csv'')
                (sinks two_tasks)) = Inr ()"
    by (simp add: read_and_put_data_def read_data_def put_def csv_source_def
        test_environment_def file_system_def)
  note t = task_failure_is_retained_and_isolated
    [where env = test_environment and p = two_tasks and i = 1 and j = 0
       and e = "ReadError ''No such file or directory''"]
  have d: "distinct (map get_name (data_loader_tasks (data_loader two_tasks)))"
    by (simp add: T get_name_def create_task_def)
  have pre: "1 < length (data_loader_tasks (data_loader two_tasks)) \<and>
        task_state (data_loader_tasks (data_loader two_tasks) ! 1) = Pending \<and>
        fst (read_and_put_data test_environment
               (task_source (data_loader_tasks (data_loader two_tasks) ! 1))
               (sinks two_tasks)) = Inl (ReadError ''No such file or directory'')"
    using fail by (simp add: T create_task_def)
  from t pre d have "get_task_status_by_name (data_loader (run_task test_environment 1 two_tasks))
          (get_name (data_loader_tasks (data_loader two_tasks) ! 1)) =
        Some (''Task failed with exception: ''
              @ str_exception (ReadError ''No such file or directory'')
              @ ''. For traceback, check the logs.'')"
    by blast
  then have failed: "get_task_status_by_name
        (data_loader (run_task test_environment 1 two_tasks)) ''u'' =
       Some ''Task failed with exception: No such file or directory. For traceback, check the logs.''"
    by (simp add: T get_name_def create_task_def)
  have pre0: "(0::nat) < length (data_loader_tasks (data_loader two_tasks)) \<and> (0::nat) \<noteq> 1 \<and>
        distinct (map get_name (data_loader_tasks (data_loader two_tasks)))"
    using d by (simp add: T)
  from t pre0 have "get_task_status_by_name (data_loader (run_task test_environment 1 two_tasks))
            (get_name (data_loader_tasks (data_loader two_tasks) ! 0)) =
          get_task_status_by_name (data_loader two_tasks)
            (get_name (data_loader_tasks (data_loader two_tasks) ! 0))"
    by blast
  then have running: "get_task_status_by_name
        (data_loader (run_task test_environment 1 two_tasks)) [] =
       Some ''Task is still running''"
    by (simp add: T get_name_def create_task_def get_task_status_by_name_def done_task_def)
  from t have "data_loader_tasks (data_loader
         (run_task test_environment 0 (run_task test_environment 1 two_tasks))) ! 0 =
        data_loader_tasks (data_loader (run_task test_environment 0 two_tasks)) ! 0"
    by simp
  then have returned: "task_state (data_loader_tasks (data_loader
         (run_task test_environment 0 (run_task test_environment 1 two_tasks))) ! 0) = Returned"
    using ok by (simp add: run_task_tasks T create_task_def)
  let ?both = "run_task test_environment 0 (run_task test_environment 1 two_tasks)"
  have T1: "data_loader_tasks (data_loader (run_task test_environment 1 two_tasks)) =
      [create_task (csv_source ''rows.csv'') [],
       (create_task (csv_source ''missing.csv'') ''u'')
         \<lparr>task_state := Raised (ReadError ''No such file or directory'')\<rparr>]"
    using fail by (simp add: run_task_tasks Let_def T create_task_def)
  have ok1: "fst (read_and_put_data test_environment (csv_source ''rows.csv'')
                (sinks (run_task test_environment 1 two_tasks))) = Inr ()"
    using ok read_and_put_data_outcome_sinks_free by metis
  have T2: "data_loader_tasks (data_loader ?both) =
      [(create_task (csv_source ''rows.csv'') [])\<lparr>task_state := Returned\<rparr>,
       (create_task (csv_source ''missing.csv'') ''u'')
         \<lparr>task_state := Raised (ReadError ''No such file or directory'')\<rparr>]"
    using ok1 T1 by (simp add: run_task_tasks [of test_environment 0] Let_def create_task_def)
  have d2: "distinct (map get_name (data_loader_tasks (data_loader ?both)))"
    using T2 by (simp add: get_name_def create_task_def)
  note s0 = task_failure_is_retained_and_isolated
    [where self = "data_loader ?both" and n = 0 and task_id = "''v''"]
  note s1 = task_failure_is_retained_and_isolated
    [where self = "data_loader ?both" and n = 1]
  from s0 d2 T2 have "get_task_status_by_name (data_loader ?both)
        (get_name (data_loader_tasks (data_loader ?both) ! 0)) =
      (case task_state (data_loader_tasks (data_loader ?both) ! 0) of
         Pending \<Rightarrow> Some ''Task is still running''
       | Cancelled \<Rightarrow> Some ''Task was cancelled''
       | Raised x \<Rightarrow> Some (''Task failed with exception: '' @ str_exception x
                            @ ''. For traceback, check the logs.'')
       | Returned \<Rightarrow> Some ''Task completed successfully'')"
    by simp
  with T2 have completed: "get_task_status_by_name (data_loader ?both) [] =
      Some ''Task completed successfully''"
    by (simp add: get_name_def create_task_def)
  from s1 d2 T2 have "get_task_status_by_name (data_loader ?both)
        (get_name (data_loader_tasks (data_loader ?both) ! 1)) =
      (case task_state (data_loader_tasks (data_loader ?both) ! 1) of
         Pending \<Rightarrow> Some ''Task is still running''
       | Cancelled \<Rightarrow> Some ''Task was cancelled''
       | Raised x \<Rightarrow> Some (''Task failed with exception: '' @ str_exception x
                            @ ''. For traceback, check the logs.'')
       | Returned \<Rightarrow> Some ''Task completed successfully'')"
    by simp
  with T2 have still_failed: "get_task_status_by_name (data_loader ?both) ''u'' =
      Some ''Task failed with exception: No such file or directory. For traceback, check the logs.''"
    by (simp add: get_name_def create_task_def)
  from s0 have "get_task_status_by_name (data_loader ?both) ''v'' = None \<longleftrightarrow>
      ''v'' \<notin> get_name ` set (data_loader_tasks (data_loader ?both))"
    by blast
  with T2 have unknown: "get_task_status_by_name (data_loader ?both) ''v'' = None"
    by (simp add: get_name_def create_task_def)
  from T fail failed running returned completed still_failed unknown
  show ?thesis by (intro conjI)
qed

end
